theory Spec2Isabelle
  imports Complex_Main "HOL-Library.Log_Nat"
begin

section \<open>Python values, exceptions and numpy arrays\<close>

text \<open>
  The embedding follows \<^verbatim>\<open>src/app.py\<close>. Python floats are modelled as real numbers
  (finite values, rounding abstracted away), Python's unbounded integers that only count
  upwards from zero as \<^typ>\<open>nat\<close>, strings as \<^typ>\<open>string\<close>. An exception raised inside
  a function is the \<open>Inl\<close> branch of its result.
\<close>

datatype exn = ValueError string | ZeroDivisionError string

text \<open>\<^verbatim>\<open>str(e)\<close>: the message the exception was raised with.\<close>

fun str_exn :: "exn \<Rightarrow> string" where
  "str_exn (ValueError m) = m"
| "str_exn (ZeroDivisionError m) = m"

text \<open>
  The values that are stored in the result dictionaries. A Python \<^verbatim>\<open>dict\<close> literal is an
  association list in the order of the source, read with \<^const>\<open>map_of\<close>.
\<close>

datatype pyval =
    PyStr string
  | PyInt int
  | PyFloat real
  | PyTuple "pyval list"
  | PyList "pyval list"
  | PyDict "(string \<times> pyval) list"

text \<open>
  A two-dimensional \<^verbatim>\<open>numpy.ndarray\<close>: its shape and its elements by row and column
  index. Only the elements at indices inside the shape are part of the array.
\<close>

record ndarray =
  shape0 :: nat
  shape1 :: nat
  elem :: "nat \<Rightarrow> nat \<Rightarrow> real"

definition size_of :: "ndarray \<Rightarrow> nat" where
  \<comment> \<open>\<^verbatim>\<open>a.size\<close>\<close>
  "size_of a = shape0 a * shape1 a"

definition tolist :: "ndarray \<Rightarrow> real list list" where
  \<comment> \<open>\<^verbatim>\<open>a.tolist()\<close>: the list of the rows\<close>
  "tolist a = map (\<lambda>i. map (\<lambda>j. elem a i j) [0..<shape1 a]) [0..<shape0 a]"

definition flatten :: "ndarray \<Rightarrow> real list" where
  \<comment> \<open>\<^verbatim>\<open>a.flatten()\<close>: the elements in row-major order\<close>
  "flatten a = concat (tolist a)"

definition amap :: "(real \<Rightarrow> real) \<Rightarrow> ndarray \<Rightarrow> ndarray" where
  \<comment> \<open>an elementwise operation on one array, such as \<^verbatim>\<open>a * 1.2\<close>\<close>
  "amap f a = a\<lparr>elem := \<lambda>i j. f (elem a i j)\<rparr>"

definition amap2 :: "(real \<Rightarrow> real \<Rightarrow> real) \<Rightarrow> ndarray \<Rightarrow> ndarray \<Rightarrow> ndarray" where
  \<comment> \<open>an elementwise operation on two arrays of one shape, such as \<^verbatim>\<open>a + b\<close>\<close>
  "amap2 f a b = a\<lparr>elem := \<lambda>i j. f (elem a i j) (elem b i j)\<rparr>"

definition np_mean :: "real list \<Rightarrow> real" where
  "np_mean xs = sum_list xs / real (length xs)"

definition np_var :: "real list \<Rightarrow> real" where
  "np_var xs = np_mean (map (\<lambda>x. (x - np_mean xs)\<^sup>2) xs)"

definition np_std :: "real list \<Rightarrow> real" where
  "np_std xs = sqrt (np_var xs)"

text \<open>
  \<^verbatim>\<open>np.min\<close> and \<^verbatim>\<open>np.max\<close> raise a \<^verbatim>\<open>ValueError\<close> on an array without elements
  (\<^verbatim>\<open>np.mean\<close>, \<^verbatim>\<open>np.std\<close> and \<^verbatim>\<open>np.var\<close> only warn there).
\<close>

definition np_min :: "real list \<Rightarrow> exn + real" where
  "np_min xs =
     (if xs = []
      then Inl (ValueError ''zero-size array to reduction operation minimum which has no identity'')
      else Inr (fold min (tl xs) (hd xs)))"

definition np_max :: "real list \<Rightarrow> exn + real" where
  "np_max xs =
     (if xs = []
      then Inl (ValueError ''zero-size array to reduction operation maximum which has no identity'')
      else Inr (fold max (tl xs) (hd xs)))"

definition np_clip :: "ndarray \<Rightarrow> real \<Rightarrow> real \<Rightarrow> ndarray" where
  "np_clip a lo hi = amap (\<lambda>x. min (max x lo) hi) a"

text \<open>
  \<^verbatim>\<open>np.gradient(f, axis=k)\<close> with unit spacing: central differences inside, one-sided
  differences at both ends. It raises when the axis has fewer than two elements.
\<close>

definition gradient_1d :: "nat \<Rightarrow> (nat \<Rightarrow> real) \<Rightarrow> nat \<Rightarrow> real" where
  "gradient_1d n f k =
     (if k = 0 then f 1 - f 0
      else if k = n - 1 then f (n - 1) - f (n - 2)
      else (f (k + 1) - f (k - 1)) / 2)"

definition gradient_too_small :: string where
  "gradient_too_small =
     ''Shape of array too small to calculate a numerical gradient, at least (edge_order + 1) elements are required.''"

definition np_gradient :: "ndarray \<Rightarrow> nat \<Rightarrow> exn + ndarray" where
  "np_gradient f axis =
     (if axis = 0
      then (if shape0 f < 2 then Inl (ValueError gradient_too_small)
            else Inr (f\<lparr>elem := \<lambda>i j. gradient_1d (shape0 f) (\<lambda>k. elem f k j) i\<rparr>))
      else (if shape1 f < 2 then Inl (ValueError gradient_too_small)
            else Inr (f\<lparr>elem := \<lambda>i j. gradient_1d (shape1 f) (\<lambda>k. elem f i k) j\<rparr>)))"

section \<open>ProductionQuantumProcessor\<close>

definition quantum_edge_detection :: "ndarray \<Rightarrow> exn + ndarray" where
  "quantum_edge_detection image_data =
     (case np_gradient image_data 1 of
        Inl e \<Rightarrow> Inl e
      | Inr grad_x \<Rightarrow>
          (case np_gradient image_data 0 of
             Inl e \<Rightarrow> Inl e
           | Inr grad_y \<Rightarrow>
               (let edges = amap sqrt (amap2 (+) (amap (\<lambda>x. x\<^sup>2) grad_x) (amap (\<lambda>y. y\<^sup>2) grad_y));
                    enhancement_factor = 1.2;
                    enhanced_edges = amap (\<lambda>x. x * enhancement_factor) edges
                in Inr (np_clip enhanced_edges 0 1))))"

text \<open>
  \<^verbatim>\<open>int(np.log2(n))\<close> for a positive integer \<open>n\<close>: the number of binary digits of \<open>n\<close>,
  less one.
\<close>

definition int_log2 :: "nat \<Rightarrow> nat" where
  "int_log2 n = floorlog 2 n - 1"

text \<open>
  The compressed data are random numbers; \<open>rnd\<close> is the stream of values that
  \<^verbatim>\<open>np.random.random\<close> draws. Only their number enters a result.
\<close>

definition quantum_image_compression :: "(nat \<Rightarrow> real) \<Rightarrow> ndarray \<Rightarrow> complex list \<times> nat" where
  "quantum_image_compression rnd image_data =
     (let flat_data = flatten image_data;
          compression_ratio = 0.25;
          compressed_size = max (nat \<lfloor>real (length flat_data) * compression_ratio\<rfloor>) 16;
          compressed_data =
            map (\<lambda>k. Complex (rnd k) (0.5 * rnd (compressed_size + k))) [0..<compressed_size]
      in (compressed_data, min 8 (int_log2 compressed_size)))"

text \<open>\<^verbatim>\<open>image_data[i::4, i::4]\<close>: every fourth row and column, starting at index \<open>i\<close>.\<close>

definition patch_of :: "ndarray \<Rightarrow> nat \<Rightarrow> ndarray" where
  "patch_of image_data i =
     \<lparr>shape0 = (shape0 image_data - i + 3) div 4,
      shape1 = (shape1 image_data - i + 3) div 4,
      elem = \<lambda>r c. elem image_data (i + 4 * r) (i + 4 * c)\<rparr>"

definition texture_step :: "ndarray \<Rightarrow> nat \<Rightarrow> real list \<Rightarrow> real list" where
  \<comment> \<open>the body of the loop over \<^verbatim>\<open>range(4)\<close>\<close>
  "texture_step image_data i features =
     (let patch = patch_of image_data i
      in if size_of patch > 0 then features @ [np_var (flatten patch)] else features)"

definition quantum_feature_extraction :: "ndarray \<Rightarrow> exn + real list" where
  "quantum_feature_extraction image_data =
     (let xs = flatten image_data
      in case np_min xs of
           Inl e \<Rightarrow> Inl e
         | Inr lo \<Rightarrow>
             (case np_max xs of
                Inl e \<Rightarrow> Inl e
              | Inr hi \<Rightarrow>
                  Inr (fold (texture_step image_data) [0..<4] [np_mean xs, np_std xs, lo, hi])))"

section \<open>RealTimeProcessor\<close>

text \<open>
  The \<^verbatim>\<open>stats\<close> dictionary of the processor, with its fixed keys. The two counters start
  at zero and are only ever incremented.
\<close>

record statistics =
  processed_images :: nat
  total_processing_time :: real
  average_processing_time :: real
  queue_size :: nat
  errors :: nat
  last_processed :: "string option"

text \<open>
  The state of a \<^verbatim>\<open>RealTimeProcessor\<close>. An item of the queue is a task
  \<^verbatim>\<open>(image_id, image_data)\<close> or \<^verbatim>\<open>None\<close>, which a worker reads as the request to stop.
  The quantum processor has no state that a result depends on, and the executor is
  never used.
\<close>

record processor =
  processing_queue :: "(string \<times> ndarray) option list"
  results_cache :: "string \<rightharpoonup> pyval"
  max_workers :: nat
  is_running :: bool
  stats :: statistics

text \<open>
  What one call of \<^verbatim>\<open>_process_image\<close> reads from its environment: the clock at entry
  and after the algorithms, the two timestamps \<^verbatim>\<open>datetime.now().isoformat()\<close>, and the
  random numbers.
\<close>

record env =
  start_time :: real
  end_time :: real
  result_now :: string
  stats_now :: string
  random :: "nat \<Rightarrow> real"

definition start_processing :: "processor \<Rightarrow> processor" where
  \<comment> \<open>the worker threads it starts are the \<open>Work\<close> steps of a run, below\<close>
  "start_processing s = s\<lparr>is_running := True\<rparr>"

definition init :: "nat \<Rightarrow> processor" where
  \<comment> \<open>\<^verbatim>\<open>RealTimeProcessor.__init__\<close>\<close>
  "init workers =
     start_processing
       \<lparr>processing_queue = [],
        results_cache = Map.empty,
        max_workers = workers,
        is_running = False,
        stats = \<lparr>processed_images = 0,
                 total_processing_time = 0.0,
                 average_processing_time = 0.0,
                 queue_size = 0,
                 errors = 0,
                 last_processed = None\<rparr>\<rparr>"

text \<open>
  The body of the \<^verbatim>\<open>try\<close> block of \<^verbatim>\<open>_process_image\<close> up to the point where nothing can
  raise any more: the three algorithms and the \<^verbatim>\<open>result\<close> dictionary. It returns the
  entry for the results cache and the processing time, or the exception.
\<close>

definition process_image_try :: "env \<Rightarrow> string \<Rightarrow> ndarray \<Rightarrow> exn + pyval \<times> real" where
  "process_image_try env image_id image_data =
     (case quantum_edge_detection image_data of
        Inl e \<Rightarrow> Inl e
      | Inr edge_map \<Rightarrow>
          (case quantum_image_compression (random env) image_data of
             (compressed_data, n_qubits) \<Rightarrow>
               (case quantum_feature_extraction image_data of
                  Inl e \<Rightarrow> Inl e
                | Inr features \<Rightarrow>
                    (let processing_time = end_time env - start_time env
                     in if size_of image_data = 0
                        then Inl (ZeroDivisionError ''division by zero'')
                        else
                          Inr (PyDict
                                [(''result'', PyDict
                                   [(''image_id'', PyStr image_id),
                                    (''timestamp'', PyStr (result_now env)),
                                    (''processing_time'', PyFloat processing_time),
                                    (''image_shape'',
                                       PyTuple [PyInt (int (shape0 image_data)),
                                                PyInt (int (shape1 image_data))]),
                                    (''edge_detection_quality'',
                                       PyFloat (np_std (flatten edge_map))),
                                    (''compression_ratio'',
                                       PyFloat (real (length compressed_data)
                                                / real (size_of image_data))),
                                    (''qubits_used'', PyInt (int n_qubits)),
                                    (''feature_count'', PyInt (int (length features))),
                                    (''status'', PyStr ''success'')]),
                                 (''edge_map'',
                                    PyList (map (\<lambda>row. PyList (map PyFloat row))
                                                (tolist edge_map))),
                                 (''features'', PyList (map PyFloat features))],
                               processing_time)))))"

definition error_entry :: "string \<Rightarrow> exn \<Rightarrow> pyval" where
  \<comment> \<open>the dictionary that the \<^verbatim>\<open>except\<close> branch stores\<close>
  "error_entry image_id e =
     PyDict [(''result'', PyDict [(''image_id'', PyStr image_id),
                                  (''status'', PyStr ''error''),
                                  (''error'', PyStr (str_exn e))])]"

definition process_image :: "env \<Rightarrow> string \<Rightarrow> ndarray \<Rightarrow> processor \<Rightarrow> processor" where
  \<comment> \<open>\<^verbatim>\<open>RealTimeProcessor._process_image\<close>\<close>
  "process_image env image_id image_data s =
     (case process_image_try env image_id image_data of
        Inr (entry, processing_time) \<Rightarrow>
          (let st0 = stats s;
               st1 = st0\<lparr>processed_images := processed_images st0 + 1\<rparr>;
               st2 = st1\<lparr>total_processing_time := total_processing_time st1 + processing_time\<rparr>;
               st3 = st2\<lparr>average_processing_time :=
                          total_processing_time st2 / real (processed_images st2)\<rparr>;
               st4 = st3\<lparr>last_processed := Some (stats_now env)\<rparr>
           in s\<lparr>results_cache := (results_cache s)(image_id \<mapsto> entry), stats := st4\<rparr>)
      | Inl e \<Rightarrow>
          s\<lparr>results_cache := (results_cache s)(image_id \<mapsto> error_entry image_id e),
            stats := (stats s)\<lparr>errors := errors (stats s) + 1\<rparr>\<rparr>)"

text \<open>\<^verbatim>\<open>int(x)\<close> of a float truncates towards zero; \<^verbatim>\<open>str(n)\<close> of an integer is decimal.\<close>

definition py_int :: "real \<Rightarrow> int" where
  "py_int x = (if x < 0 then \<lceil>x\<rceil> else \<lfloor>x\<rfloor>)"

fun str_nat :: "nat \<Rightarrow> string" where
  "str_nat n =
     (if n < 10 then [''0123456789'' ! n]
      else str_nat (n div 10) @ [''0123456789'' ! (n mod 10)])"

definition str_int :: "int \<Rightarrow> string" where
  "str_int i = (if i < 0 then CHR ''-'' # str_nat (nat (- i)) else str_nat (nat i))"

definition fresh_image_id :: "real \<Rightarrow> string" where
  \<comment> \<open>\<^verbatim>\<open>f"img_{int(time.time() * 1000)}"\<close>, with \<open>now\<close> the value of \<^verbatim>\<open>time.time()\<close>\<close>
  "fresh_image_id now = ''img_'' @ str_int (py_int (now * 1000))"

definition submit_image :: "real \<Rightarrow> processor \<Rightarrow> ndarray \<Rightarrow> string option \<Rightarrow> string \<times> processor" where
  \<comment> \<open>\<open>now\<close> is the value of \<^verbatim>\<open>time.time()\<close>, read when no identifier is given\<close>
  "submit_image now s image_data image_id =
     (let image_id' = (case image_id of None \<Rightarrow> fresh_image_id now | Some i \<Rightarrow> i);
          q = processing_queue s @ [Some (image_id', image_data)]
      in (image_id', s\<lparr>processing_queue := q, stats := (stats s)\<lparr>queue_size := length q\<rparr>\<rparr>))"


definition get_stats :: "processor \<Rightarrow> statistics \<times> processor" where
  "get_stats s =
     (let s' = s\<lparr>stats := (stats s)\<lparr>queue_size := length (processing_queue s)\<rparr>\<rparr>
      in (stats s', s'))"

text \<open>
  One iteration of the loop of \<^verbatim>\<open>_processing_worker\<close>; the flag tells whether the
  worker goes on. An empty queue is the \<^verbatim>\<open>queue.Empty\<close> of the timed-out \<^verbatim>\<open>get\<close>.
  With tasks that are pairs of a string and an array nothing escapes
  \<^verbatim>\<open>_process_image\<close>, so the last handler of the loop is never entered.
  \<^verbatim>\<open>task_done()\<close> only feeds the counter of \<^verbatim>\<open>Queue.join\<close>, which nothing calls.
\<close>

definition processing_worker_step :: "env \<Rightarrow> processor \<Rightarrow> bool \<times> processor" where
  "processing_worker_step env s =
     (if \<not> is_running s then (False, s)
      else case processing_queue s of
             [] \<Rightarrow> (True, s)
           | None # q \<Rightarrow> (False, s\<lparr>processing_queue := q\<rparr>)
           | Some (image_id, image_data) # q \<Rightarrow>
               (True, process_image env image_id image_data (s\<lparr>processing_queue := q\<rparr>)))"

text \<open>
  The loop of one worker. It never returns by itself while the processor runs, so the
  list of environments bounds the number of iterations.
\<close>

fun processing_worker :: "env list \<Rightarrow> processor \<Rightarrow> processor" where
  "processing_worker [] s = s"
| "processing_worker (env # envs) s =
     (let (go_on, s') = processing_worker_step env s
      in if go_on then processing_worker envs s' else s')"

text \<open>
  A run of the processor is a sequence of calls, each taken as one atomic step: a
  submission, one loop iteration of some worker, a poll, a look at the statistics.
\<close>

datatype call =
    Submit real ndarray "string option"
  | Work env
  | GetResult string
  | GetStats

fun call_step :: "call \<Rightarrow> processor \<Rightarrow> processor" where
  "call_step (Submit now image_data image_id) s = snd (submit_image now s image_data image_id)"
| "call_step (Work env) s = snd (processing_worker_step env s)"
| "call_step (GetResult image_id) s = s"
| "call_step GetStats s = snd (get_stats s)"

definition run :: "call list \<Rightarrow> processor \<Rightarrow> processor" where
  "run calls s = fold call_step calls s"

section \<open>Reading results\<close>

text \<open>
  A caller reads a cache entry as the HTTP layer and the page's script do: the key of a
  dictionary, and the key of the dictionary stored under \<^verbatim>\<open>'result'\<close> in an entry.
\<close>

fun dict_get :: "pyval \<Rightarrow> string \<Rightarrow> pyval option" where
  "dict_get (PyDict kvs) k = map_of kvs k"
| "dict_get _ k = None"

fun dict_keys :: "pyval \<Rightarrow> string list" where
  "dict_keys (PyDict kvs) = map fst kvs"
| "dict_keys _ = []"

definition result_field :: "pyval \<Rightarrow> string \<Rightarrow> pyval option" where
  "result_field entry k =
     (case dict_get entry ''result'' of Some r \<Rightarrow> dict_get r k | None \<Rightarrow> None)"

definition result_keys :: "pyval \<Rightarrow> string list" where
  "result_keys entry = (case dict_get entry ''result'' of Some r \<Rightarrow> dict_keys r | None \<Rightarrow> [])"

text \<open>
  The identifier under which a call submits its task, and the identifiers of the tasks
  that wait in the queue.
\<close>

fun submitted_id :: "call \<Rightarrow> string option" where
  "submitted_id (Submit now image_data image_id) =
     Some (case image_id of None \<Rightarrow> fresh_image_id now | Some i \<Rightarrow> i)"
| "submitted_id _ = None"

fun pending_ids :: "(string \<times> ndarray) option list \<Rightarrow> string list" where
  "pending_ids [] = []"
| "pending_ids (None # q) = pending_ids q"
| "pending_ids (Some (image_id, image_data) # q) = image_id # pending_ids q"

definition zeros :: "nat \<Rightarrow> nat \<Rightarrow> ndarray" where
  \<comment> \<open>\<^verbatim>\<open>np.zeros((r, c))\<close>\<close>
  "zeros r c = \<lparr>shape0 = r, shape1 = c, elem = \<lambda>i j. 0\<rparr>"

text \<open>
  The relation between the average, the total and the count that the spec asks of the
  statistics.
\<close>

definition stats_consistent :: "statistics \<Rightarrow> bool" where
  "stats_consistent st \<longleftrightarrow>
     (0 < processed_images st \<longrightarrow>
        average_processing_time st = total_processing_time st / real (processed_images st)) \<and>
     (processed_images st = 0 \<longrightarrow> average_processing_time st = 0)"

section \<open>Example inputs\<close>

text \<open>
  Concrete environments, images, call sequences and states, at which the theorems below
  are instantiated.
\<close>

definition env0 :: env where
  "env0 = \<lparr>start_time = 100, end_time = 100.5,
           result_now = ''2024-01-01T00:00:00.500000'',
           stats_now = ''2024-01-01T00:00:00.500100'',
           random = (\<lambda>k. 1 / 2)\<rparr>"


definition one_task :: "call list" where
  "one_task = [Submit 100 (zeros 4 4) (Some ''img_1''), Work env0]"

definition failing_task :: "call list" where
  "failing_task = [Submit 100 (zeros 1 1) (Some ''img_1''), Work env0]"

definition two_tasks :: processor where
  "two_tasks =
     run [Submit 100 (zeros 1 1) (Some ''bad''), Submit 101 (zeros 4 4) (Some ''good'')] (init 4)"

definition stopped :: processor where
  "stopped = (init 4)\<lparr>is_running := False\<rparr>"

definition resubmit :: "call list" where
  "resubmit = [Submit 101 (zeros 1 1) (Some ''img_1''), Work env0]"

definition other_calls :: "call list" where
  "other_calls =
     [Submit 101 (zeros 1 1) (Some ''img_2''), Work env0, GetStats, GetResult ''img_1'']"


section \<open>Properties of the algorithms\<close>

lemma length_flatten: "length (flatten a) = size_of a"
  by (simp add: flatten_def tolist_def size_of_def length_concat comp_def sum_list_triv)

lemma flatten_empty: "flatten a = [] \<longleftrightarrow> size_of a = 0"
  using length_flatten[of a] by (metis length_0_conv)

lemma int_log2_floor: "0 < n \<Longrightarrow> int (int_log2 n) = \<lfloor>log 2 (real n)\<rfloor>"
  by (simp add: int_log2_def floorlog_def)

lemma quarter_floor: "nat \<lfloor>real n * 0.25\<rfloor> = n div 4"
proof -
  have "real n * 0.25 = real n / real 4" by simp
  then show ?thesis by (simp only: floor_divide_of_nat_eq nat_int)
qed

lemma int_log2_mono: "m \<le> n \<Longrightarrow> int_log2 m \<le> int_log2 n"
  unfolding int_log2_def using floorlog_mono[of m n 2] by simp

lemma int_log2_16: "int_log2 16 = 4"
  unfolding int_log2_def by (simp add: compute_floorlog)

lemma int_log2_ge: "16 \<le> n \<Longrightarrow> 4 \<le> int_log2 n"
  using int_log2_mono[of 16 n] by (simp add: int_log2_16)

lemma patch_nonempty: "0 < size_of (patch_of a i) \<longleftrightarrow> i < shape0 a \<and> i < shape1 a"
  by (auto simp: size_of_def patch_of_def)

lemma length_texture_fold:
  "length (fold (texture_step a) is acc) =
     length acc + length (filter (\<lambda>i. i < shape0 a \<and> i < shape1 a) is)"
  by (induction "is" arbitrary: acc) (simp_all add: texture_step_def Let_def patch_nonempty)

lemma edge_detection_Inr:
  "quantum_edge_detection a = Inr e \<Longrightarrow>
     2 \<le> shape0 a \<and> 2 \<le> shape1 a \<and> shape0 e = shape0 a \<and> shape1 e = shape1 a \<and>
     (\<forall>i j. 0 \<le> elem e i j \<and> elem e i j \<le> 1)"
  by (auto simp: quantum_edge_detection_def np_gradient_def np_clip_def amap_def amap2_def Let_def
      split: sum.splits if_splits)

lemma edge_detection_total:
  "2 \<le> shape0 a \<Longrightarrow> 2 \<le> shape1 a \<Longrightarrow> \<exists>e. quantum_edge_detection a = Inr e"
  by (simp add: quantum_edge_detection_def np_gradient_def Let_def)

lemma edge_detection_Inl:
  "quantum_edge_detection a = Inl x \<longleftrightarrow>
     (shape0 a < 2 \<or> shape1 a < 2) \<and> x = ValueError gradient_too_small"
  by (auto simp: quantum_edge_detection_def np_gradient_def Let_def split: sum.splits if_splits)

lemma quarter_floor': "nat \<lfloor>real n / 4\<rfloor> = n div 4"
  using quarter_floor[of n] by simp

lemma compression_length:
  "length (fst (quantum_image_compression rnd a)) = max (size_of a div 4) 16"
  by (simp add: quantum_image_compression_def Let_def length_flatten quarter_floor')

lemma compression_qubits:
  "snd (quantum_image_compression rnd a) = min 8 (int_log2 (max (size_of a div 4) 16))"
  by (simp add: quantum_image_compression_def Let_def length_flatten quarter_floor')

lemma feature_extraction_Inr:
  "0 < size_of a \<Longrightarrow>
     \<exists>fs. quantum_feature_extraction a = Inr fs \<and>
          length fs = 4 + length (filter (\<lambda>i. i < shape0 a \<and> i < shape1 a) [0..<4])"
  by (simp add: quantum_feature_extraction_def Let_def np_min_def np_max_def flatten_empty
      length_texture_fold)

lemma feature_extraction_Inl:
  "size_of a = 0 \<Longrightarrow> \<exists>m. quantum_feature_extraction a = Inl (ValueError m)"
  by (simp add: quantum_feature_extraction_def Let_def np_min_def flatten_empty)




lemma try_Inl:
  "process_image_try env i a = Inl x \<longleftrightarrow>
     (shape0 a < 2 \<or> shape1 a < 2) \<and> x = ValueError gradient_too_small"
proof (cases "shape0 a < 2 \<or> shape1 a < 2")
  case True
  then have "quantum_edge_detection a = Inl (ValueError gradient_too_small)"
    by (simp add: edge_detection_Inl)
  then show ?thesis using True by (auto simp: process_image_try_def)
next
  case False
  then obtain e where e: "quantum_edge_detection a = Inr e"
    using edge_detection_total[of a] by auto
  from False have "0 < size_of a" by (simp add: size_of_def)
  then obtain fs where "quantum_feature_extraction a = Inr fs"
    using feature_extraction_Inr[of a] by auto
  then show ?thesis using False e \<open>0 < size_of a\<close>
    by (auto simp: process_image_try_def Let_def split: prod.splits)
qed

lemma try_Inr_fields:
  assumes "process_image_try env i a = Inr (entry, t)"
  shows "result_field entry ''status'' = Some (PyStr ''success'')"
    and "result_field entry ''qubits_used'' =
           Some (PyInt (int (snd (quantum_image_compression (random env) a))))"
    and "result_field entry ''compression_ratio'' =
           Some (PyFloat (real (length (fst (quantum_image_compression (random env) a)))
                          / real (size_of a)))"
    and "\<exists>fs. quantum_feature_extraction a = Inr fs \<and>
            result_field entry ''feature_count'' = Some (PyInt (int (length fs)))"
    and "\<exists>e. quantum_edge_detection a = Inr e \<and>
            result_field entry ''edge_detection_quality'' = Some (PyFloat (np_std (flatten e)))"
    and "t = end_time env - start_time env"
  using assms
  by (auto simp: process_image_try_def Let_def result_field_def
      split: sum.splits prod.splits if_splits)

section \<open>The results of the algorithms\<close>

lemma try_total:
  "2 \<le> shape0 a \<Longrightarrow> 2 \<le> shape1 a \<Longrightarrow> \<exists>entry. process_image_try env i a = Inr (entry, end_time env - start_time env)"
proof -
  assume a: "2 \<le> shape0 a" "2 \<le> shape1 a"
  have "\<not> (\<exists>x. process_image_try env i a = Inl x)" using a by (simp add: try_Inl)
  then obtain p where p: "process_image_try env i a = Inr p" by (cases "process_image_try env i a") auto
  obtain entry t where "p = (entry, t)" by (cases p)
  with p try_Inr_fields(6)[of env i a entry t] show ?thesis by auto
qed

lemma card_indices:
  "card {i \<in> {0, 1, 2, 3::nat}. P i} = length (filter P [0..<4])"
proof -
  have eq: "{i \<in> {0, 1, 2, 3::nat}. P i} = set (filter P [0..<4])" by auto
  show ?thesis unfolding eq by (rule distinct_card) simp
qed

text \<open>
  Claim C6. For every image the compressed representation has at least 16 elements, and
  the number of qubits is \<open>min(8, floor(log2(compressed size)))\<close>, an integer between 4
  and 8; that number is the \<^verbatim>\<open>qubits_used\<close> of every success result.
\<close>

theorem qubits_used_bounded:
  "(let compressed = quantum_image_compression (random env) image_data;
        compressed_size = length (fst compressed);
        n_qubits = snd compressed
    in 16 \<le> compressed_size \<and>
       int n_qubits = min 8 \<lfloor>log 2 (real compressed_size)\<rfloor> \<and>
       4 \<le> n_qubits \<and> n_qubits \<le> 8 \<and>
       (\<forall>entry t. process_image_try env image_id image_data = Inr (entry, t) \<longrightarrow>
          result_field entry ''qubits_used'' = Some (PyInt (int n_qubits))))"
proof -
  let ?k = "max (size_of image_data div 4) 16"
  have "int (int_log2 ?k) = \<lfloor>log 2 (real ?k)\<rfloor>"
    by (rule int_log2_floor) simp
  then have "int (min 8 (int_log2 ?k)) = min 8 \<lfloor>log 2 (real ?k)\<rfloor>"
    by (simp only: of_nat_min of_nat_numeral)
  moreover have "4 \<le> int_log2 ?k" by (rule int_log2_ge) simp
  ultimately show ?thesis
    using try_Inr_fields(2)[of env image_id image_data]
    by (simp add: Let_def compression_length compression_qubits)
qed

theorem qubits_used_bounded_witness:
  "\<exists>entry t. process_image_try env0 ''img_1'' (zeros 4 4) = Inr (entry, t) \<and>
     result_field entry ''qubits_used'' = Some (PyInt 4)"
proof -
  obtain entry where e: "process_image_try env0 ''img_1'' (zeros 4 4) = Inr (entry, end_time env0 - start_time env0)"
    using try_total[of "zeros 4 4" env0 "''img_1''"] by (auto simp: zeros_def)
  have "snd (quantum_image_compression (random env0) (zeros 4 4)) = 4"
    by (simp add: compression_qubits size_of_def zeros_def int_log2_16)
  with e qubits_used_bounded[of env0 "zeros 4 4" "''img_1''"]
  show ?thesis by (auto simp: Let_def)
qed

text \<open>
  Claim C7. In a success result for an image of \<open>n\<close> elements, \<^verbatim>\<open>compression_ratio\<close> is
  the length of the compressed data divided by \<open>n\<close>, that length being
  \<open>max(floor(0.25 * n), 16)\<close>; for 16 elements the ratio is 1.
\<close>

theorem compression_ratio_value:
  "process_image_try env image_id image_data = Inr (entry, t) \<Longrightarrow>
     (let n = size_of image_data;
          compressed_length = max (nat \<lfloor>0.25 * real n\<rfloor>) 16
      in length (fst (quantum_image_compression (random env) image_data)) = compressed_length \<and>
         result_field entry ''compression_ratio'' = Some (PyFloat (real compressed_length / real n)) \<and>
         (n = 16 \<longrightarrow> result_field entry ''compression_ratio'' = Some (PyFloat 1.0)))"
  using try_Inr_fields(3)[of env image_id image_data entry t] quarter_floor[of "size_of image_data"]
  by (auto simp: Let_def compression_length mult.commute)

theorem compression_ratio_value_witness:
  "\<exists>entry t. process_image_try env0 ''img_1'' (zeros 4 4) = Inr (entry, t) \<and>
     size_of (zeros 4 4) = 16 \<and>
     length (fst (quantum_image_compression (random env0) (zeros 4 4))) = 16 \<and>
     result_field entry ''compression_ratio'' = Some (PyFloat 1)"
proof -
  obtain entry where e: "process_image_try env0 ''img_1'' (zeros 4 4) = Inr (entry, end_time env0 - start_time env0)"
    using try_total[of "zeros 4 4" env0 "''img_1''"] by (auto simp: zeros_def)
  have s: "size_of (zeros 4 4) = 16" by (simp add: size_of_def zeros_def)
  from compression_ratio_value[OF e] s show ?thesis using e by (auto simp: Let_def)
qed




text \<open>
  Claim C10. For a non-empty image the feature vector has 4 entries plus one for every
  \<open>i\<close> among 0, 1, 2, 3 that is smaller than both dimensions, and \<^verbatim>\<open>feature_count\<close> of
  a success result is that number; it is 8 when both dimensions are at least 4 and 5
  for a 1 by 1 image.
\<close>

theorem feature_count_value:
  "(0 < size_of image_data \<longrightarrow>
      (\<exists>features. quantum_feature_extraction image_data = Inr features \<and>
         length features =
           4 + card {i \<in> {0, 1, 2, 3}. i < shape0 image_data \<and> i < shape1 image_data})) \<and>
   (\<forall>entry t. process_image_try env image_id image_data = Inr (entry, t) \<longrightarrow>
      result_field entry ''feature_count'' =
        Some (PyInt (int (4 + card {i \<in> {0, 1, 2, 3}. i < shape0 image_data \<and> i < shape1 image_data})))) \<and>
   (4 \<le> shape0 image_data \<and> 4 \<le> shape1 image_data \<longrightarrow>
      (\<exists>features. quantum_feature_extraction image_data = Inr features \<and> length features = 8)) \<and>
   (shape0 image_data = 1 \<and> shape1 image_data = 1 \<longrightarrow>
      (\<exists>features. quantum_feature_extraction image_data = Inr features \<and> length features = 5))"
proof (intro conjI allI impI)
  assume "0 < size_of image_data"
  then show "\<exists>features. quantum_feature_extraction image_data = Inr features \<and>
         length features =
           4 + card {i \<in> {0, 1, 2, 3}. i < shape0 image_data \<and> i < shape1 image_data}"
    using feature_extraction_Inr[of image_data] unfolding card_indices by simp
next
  fix entry t assume "process_image_try env image_id image_data = Inr (entry, t)"
  note f = try_Inr_fields(4)[OF this] try_Inr_fields(5)[OF this]
  then obtain e where "quantum_edge_detection image_data = Inr e" by blast
  then have "0 < size_of image_data" using edge_detection_Inr[of image_data e] by (simp add: size_of_def)
  then show "result_field entry ''feature_count'' =
        Some (PyInt (int (4 + card {i \<in> {0, 1, 2, 3}. i < shape0 image_data \<and> i < shape1 image_data})))"
    using feature_extraction_Inr[of image_data] f(1) unfolding card_indices by auto
next
  assume a: "4 \<le> shape0 image_data \<and> 4 \<le> shape1 image_data"
  then have "0 < size_of image_data" by (simp add: size_of_def)
  moreover have "filter (\<lambda>i. i < shape0 image_data \<and> i < shape1 image_data) [0..<4] = [0..<4]"
    using a by (intro filter_True) auto
  ultimately show "\<exists>features. quantum_feature_extraction image_data = Inr features \<and> length features = 8"
    using feature_extraction_Inr[of image_data] by simp
next
  assume a: "shape0 image_data = 1 \<and> shape1 image_data = 1"
  then have "0 < size_of image_data" by (simp add: size_of_def)
  moreover have "filter (\<lambda>i. i < shape0 image_data \<and> i < shape1 image_data) [0..<4] = [0]"
    using a by (simp add: upt_rec)
  ultimately show "\<exists>features. quantum_feature_extraction image_data = Inr features \<and> length features = 5"
    using feature_extraction_Inr[of image_data] by simp
qed

theorem feature_count_value_witness:
  "0 < size_of (zeros 4 4) \<and> 4 \<le> shape0 (zeros 4 4) \<and> 4 \<le> shape1 (zeros 4 4) \<and>
   (\<exists>features. quantum_feature_extraction (zeros 4 4) = Inr features \<and> length features = 8) \<and>
   (\<exists>entry t. process_image_try env0 ''img_1'' (zeros 4 4) = Inr (entry, t) \<and>
      result_field entry ''feature_count'' = Some (PyInt 8)) \<and>
   shape0 (zeros 1 1) = 1 \<and> shape1 (zeros 1 1) = 1 \<and>
   (\<exists>features. quantum_feature_extraction (zeros 1 1) = Inr features \<and> length features = 5)"
proof -
  have s: "4 \<le> shape0 (zeros 4 4) \<and> 4 \<le> shape1 (zeros 4 4)" "0 < size_of (zeros 4 4)"
    by (simp_all add: zeros_def size_of_def)
  have c: "card {i \<in> {0, 1, 2, 3}. i < shape0 (zeros 4 4) \<and> i < shape1 (zeros 4 4)} = 4"
    unfolding card_indices by (simp add: zeros_def)
  obtain entry where e: "process_image_try env0 ''img_1'' (zeros 4 4) = Inr (entry, end_time env0 - start_time env0)"
    using try_total[of "zeros 4 4" env0 "''img_1''"] by (auto simp: zeros_def)
  note t = feature_count_value[of "zeros 4 4" env0 "''img_1''"]
  from t s have 1: "\<exists>features. quantum_feature_extraction (zeros 4 4) = Inr features \<and> length features = 8"
    by blast
  from t e have "result_field entry ''feature_count'' =
      Some (PyInt (int (4 + card {i \<in> {0, 1, 2, 3}. i < shape0 (zeros 4 4) \<and> i < shape1 (zeros 4 4)})))"
    by blast
  then have 2: "result_field entry ''feature_count'' = Some (PyInt 8)" unfolding c by simp
  have u: "shape0 (zeros 1 1) = 1 \<and> shape1 (zeros 1 1) = 1" by (simp add: zeros_def)
  with feature_count_value[of "zeros 1 1" env0 "''img_1''"]
  have 3: "\<exists>features. quantum_feature_extraction (zeros 1 1) = Inr features \<and> length features = 5"
    by blast
  from s 1 2 3 u e show ?thesis by blast
qed

section \<open>Properties of the processor\<close>

lemma process_image_success:
  assumes "process_image_try env i a = Inr (entry, t)"
  shows "process_image env i a s =
           s\<lparr>results_cache := (results_cache s)(i \<mapsto> entry),
             stats := (stats s)\<lparr>processed_images := processed_images (stats s) + 1,
                                total_processing_time := total_processing_time (stats s) + t,
                                average_processing_time :=
                                  (total_processing_time (stats s) + t)
                                  / real (processed_images (stats s) + 1),
                                last_processed := Some (stats_now env)\<rparr>\<rparr>"
  using assms by (simp add: process_image_def Let_def)

lemma process_image_error:
  assumes "process_image_try env i a = Inl e"
  shows "process_image env i a s =
           s\<lparr>results_cache := (results_cache s)(i \<mapsto> error_entry i e),
             stats := (stats s)\<lparr>errors := errors (stats s) + 1\<rparr>\<rparr>"
  using assms by (simp add: process_image_def)

lemma process_image_frame:
  "processing_queue (process_image env i a s) = processing_queue s"
  "is_running (process_image env i a s) = is_running s"
  "max_workers (process_image env i a s) = max_workers s"
  "j \<noteq> i \<Longrightarrow> results_cache (process_image env i a s) j = results_cache s j"
  "results_cache (process_image env i a s) i \<noteq> None"
  "dom (results_cache (process_image env i a s)) = insert i (dom (results_cache s))"
  by (auto simp: process_image_def Let_def split: sum.splits prod.splits)

lemma error_entry_fields:
  "result_field (error_entry i e) ''image_id'' = Some (PyStr i)"
  "result_field (error_entry i e) ''status'' = Some (PyStr ''error'')"
  "result_field (error_entry i e) ''error'' = Some (PyStr (str_exn e))"
  "result_keys (error_entry i e) = [''image_id'', ''status'', ''error'']"
  "dict_keys (error_entry i e) = [''result'']"
  by (simp_all add: error_entry_def result_field_def result_keys_def)

lemma gradient_too_small_nonempty: "gradient_too_small \<noteq> []"
  by (simp add: gradient_too_small_def)

lemma process_image_counts_success:
  "2 \<le> shape0 a \<Longrightarrow> 2 \<le> shape1 a \<Longrightarrow>
     processed_images (stats (process_image env i a s)) = processed_images (stats s) + 1 \<and>
     errors (stats (process_image env i a s)) = errors (stats s)"
  using try_total[of a env i] by (auto simp: process_image_success)

lemma submit_image_frame:
  "results_cache (snd (submit_image now s a i)) = results_cache s"
  "is_running (snd (submit_image now s a i)) = is_running s"
  "max_workers (snd (submit_image now s a i)) = max_workers s"
  "processed_images (stats (snd (submit_image now s a i))) = processed_images (stats s)"
  "total_processing_time (stats (snd (submit_image now s a i))) = total_processing_time (stats s)"
  "average_processing_time (stats (snd (submit_image now s a i))) = average_processing_time (stats s)"
  "errors (stats (snd (submit_image now s a i))) = errors (stats s)"
  "processing_queue (snd (submit_image now s a i)) =
     processing_queue s @ [Some (case i of None \<Rightarrow> fresh_image_id now | Some j \<Rightarrow> j, a)]"
  "fst (submit_image now s a i) = (case i of None \<Rightarrow> fresh_image_id now | Some j \<Rightarrow> j)"
  by (simp_all add: submit_image_def Let_def)

lemma get_stats_frame:
  "results_cache (snd (get_stats s)) = results_cache s"
  "is_running (snd (get_stats s)) = is_running s"
  "processing_queue (snd (get_stats s)) = processing_queue s"
  "processed_images (stats (snd (get_stats s))) = processed_images (stats s)"
  "total_processing_time (stats (snd (get_stats s))) = total_processing_time (stats s)"
  "average_processing_time (stats (snd (get_stats s))) = average_processing_time (stats s)"
  "errors (stats (snd (get_stats s))) = errors (stats s)"
  by (simp_all add: get_stats_def Let_def)

lemma consistent_process_image:
  "stats_consistent (stats s) \<Longrightarrow> stats_consistent (stats (process_image env i a s))"
  by (auto simp: stats_consistent_def process_image_def Let_def split: sum.splits prod.splits)

lemma consistent_worker_step:
  "stats_consistent (stats s) \<Longrightarrow> stats_consistent (stats (snd (processing_worker_step env s)))"
  by (auto simp: processing_worker_step_def consistent_process_image
      split: list.splits option.splits prod.splits)

lemma consistent_call_step:
  "stats_consistent (stats s) \<Longrightarrow> stats_consistent (stats (call_step c s))"
proof (cases c)
  case (Submit now a i)
  assume "stats_consistent (stats s)"
  then show ?thesis unfolding Submit by (simp add: stats_consistent_def submit_image_frame)
next
  case (Work env)
  assume "stats_consistent (stats s)"
  then show ?thesis unfolding Work by (simp add: consistent_worker_step)
next
  case (GetResult i)
  assume "stats_consistent (stats s)"
  then show ?thesis unfolding GetResult by simp
next
  case GetStats
  assume "stats_consistent (stats s)"
  then show ?thesis unfolding GetStats by (simp add: stats_consistent_def get_stats_frame)
qed

lemma consistent_run:
  "stats_consistent (stats s) \<Longrightarrow> stats_consistent (stats (run calls s))"
  unfolding run_def by (induction calls arbitrary: s) (simp_all add: consistent_call_step)

lemma consistent_init: "stats_consistent (stats (init w))"
  by (simp add: stats_consistent_def init_def start_processing_def)

text \<open>
  Claim C4. The statistics are consistent when the processor is created, with an average
  of zero; processing a task, successfully or not, and every other call keep them
  consistent; so after every run of calls the average is the total divided by the count
  when the count is positive, and zero before the first success.
\<close>

theorem average_invariant:
  "stats_consistent (stats (init workers)) \<and>
   average_processing_time (stats (init workers)) = 0 \<and>
   (stats_consistent (stats s) \<longrightarrow>
      stats_consistent (stats (process_image env image_id image_data s))) \<and>
   (stats_consistent (stats s) \<longrightarrow> stats_consistent (stats (call_step c s))) \<and>
   (let st = stats (run calls (init workers))
    in (0 < processed_images st \<longrightarrow>
          average_processing_time st = total_processing_time st / real (processed_images st)) \<and>
       (processed_images st = 0 \<longrightarrow> average_processing_time st = 0))"
proof -
  have "stats_consistent (stats (run calls (init workers)))"
    by (rule consistent_run) (rule consistent_init)
  then show ?thesis
    using consistent_init[of workers]
    by (simp add: Let_def consistent_process_image consistent_call_step)
       (simp add: stats_consistent_def init_def start_processing_def)
qed

lemma worker_step_task:
  "is_running s \<Longrightarrow> processing_queue s = Some (i, a) # q \<Longrightarrow>
     processing_worker_step env s = (True, process_image env i a (s\<lparr>processing_queue := q\<rparr>))"
  by (simp add: processing_worker_step_def)

lemma process_image_stats_success:
  assumes "2 \<le> shape0 a" "2 \<le> shape1 a"
  shows "processed_images (stats (process_image env i a s)) = processed_images (stats s) + 1"
    and "errors (stats (process_image env i a s)) = errors (stats s)"
    and "total_processing_time (stats (process_image env i a s)) =
           total_processing_time (stats s) + (end_time env - start_time env)"
    and "average_processing_time (stats (process_image env i a s)) =
           (total_processing_time (stats s) + (end_time env - start_time env))
           / real (processed_images (stats s) + 1)"
    and "last_processed (stats (process_image env i a s)) = Some (stats_now env)"
  using try_total[OF assms, of env i] by (auto simp: process_image_success)

lemma process_image_stats_failure:
  assumes "shape0 a < 2 \<or> shape1 a < 2"
  shows "processed_images (stats (process_image env i a s)) = processed_images (stats s)"
    and "errors (stats (process_image env i a s)) = errors (stats s) + 1"
    and "total_processing_time (stats (process_image env i a s)) = total_processing_time (stats s)"
    and "average_processing_time (stats (process_image env i a s)) =
           average_processing_time (stats s)"
    and "last_processed (stats (process_image env i a s)) = last_processed (stats s)"
    and "results_cache (process_image env i a s) i =
           Some (error_entry i (ValueError gradient_too_small))"
proof -
  have e: "process_image_try env i a = Inl (ValueError gradient_too_small)"
    using assms by (simp add: try_Inl)
  show "processed_images (stats (process_image env i a s)) = processed_images (stats s)"
    and "errors (stats (process_image env i a s)) = errors (stats s) + 1"
    and "total_processing_time (stats (process_image env i a s)) = total_processing_time (stats s)"
    and "average_processing_time (stats (process_image env i a s)) =
           average_processing_time (stats s)"
    and "last_processed (stats (process_image env i a s)) = last_processed (stats s)"
    and "results_cache (process_image env i a s) i =
           Some (error_entry i (ValueError gradient_too_small))"
    by (simp_all add: process_image_error[OF e])
qed

lemma run_submit_work:
  "run [Submit now a (Some i), Work env] (init w) =
     process_image env i a ((snd (submit_image now (init w) a (Some i)))\<lparr>processing_queue := []\<rparr>)"
proof -
  let ?s = "snd (submit_image now (init w) a (Some i))"
  have q: "processing_queue ?s = Some (i, a) # []"
    by (simp add: submit_image_frame init_def start_processing_def)
  have r: "is_running ?s" by (simp add: submit_image_frame init_def start_processing_def)
  show ?thesis by (simp add: run_def worker_step_task[OF r q])
qed

lemma stats_after_submit:
  "processed_images (stats (snd (submit_image now (init w) a i))) = 0"
  "errors (stats (snd (submit_image now (init w) a i))) = 0"
  "total_processing_time (stats (snd (submit_image now (init w) a i))) = 0"
  "average_processing_time (stats (snd (submit_image now (init w) a i))) = 0"
  "results_cache (snd (submit_image now (init w) a i)) = Map.empty"
  by (simp_all add: submit_image_frame) (simp_all add: init_def start_processing_def)

lemma run_one_task_stats:
  "processed_images (stats (run one_task (init 4))) = 1 \<and>
   total_processing_time (stats (run one_task (init 4))) = 1 / 2 \<and>
   errors (stats (run one_task (init 4))) = 0"
proof -
  have z: "2 \<le> shape0 (zeros 4 4)" "2 \<le> shape1 (zeros 4 4)" by (simp_all add: zeros_def)
  have t: "end_time env0 - start_time env0 = 1 / 2" by (simp add: env0_def)
  show ?thesis
    unfolding one_task_def run_submit_work
    by (simp add: process_image_stats_success[OF z] stats_after_submit t)
qed

lemma run_failing_task_stats:
  "processed_images (stats (run failing_task (init 4))) = 0 \<and>
   errors (stats (run failing_task (init 4))) = 1"
proof -
  have z: "shape0 (zeros 1 1) < 2 \<or> shape1 (zeros 1 1) < 2" by (simp add: zeros_def)
  show ?thesis
    unfolding failing_task_def run_submit_work
    using process_image_stats_failure(1,2)[OF z] by (simp add: stats_after_submit)
qed

theorem average_invariant_witness:
  "0 < processed_images (stats (run one_task (init 4))) \<and>
   average_processing_time (stats (run one_task (init 4))) = 1 / 2 \<and>
   total_processing_time (stats (run one_task (init 4))) / real (processed_images (stats (run one_task (init 4)))) = 1 / 2 \<and>
   processed_images (stats (run failing_task (init 4))) = 0 \<and>
   average_processing_time (stats (run failing_task (init 4))) = 0 \<and>
   stats_consistent (stats (init 4)) \<and>
   stats_consistent (stats (process_image env0 ''img_1'' (zeros 1 1) (init 4))) \<and>
   stats_consistent (stats (call_step (Work env0) (init 4)))"
  using average_invariant[of 4 "init 4" env0 "''img_1''" "zeros 1 1" "Work env0" one_task]
    average_invariant[of 4 "init 4" env0 "''img_1''" "zeros 1 1" "Work env0" failing_task]
    run_one_task_stats run_failing_task_stats
  by (simp add: Let_def)

lemma worker_idle: "processing_queue s = [] \<Longrightarrow> processing_worker envs s = s"
  by (induction envs) (simp_all add: processing_worker_step_def)

lemma worker_task:
  "is_running s \<Longrightarrow> processing_queue s = Some (i, a) # q \<Longrightarrow>
     processing_worker (env # envs) s =
       processing_worker envs (process_image env i a (s\<lparr>processing_queue := q\<rparr>))"
  by (simp add: worker_step_task)

lemma worker_drains:
  assumes "is_running s" and "processing_queue s = map Some tasks"
    and "length tasks \<le> length envs"
    and "\<forall>(j, b) \<in> set tasks. \<forall>env s. \<exists>entry.
           results_cache (process_image env j b s) j = Some entry \<and> Q entry"
    and "\<forall>j \<in> D. \<exists>entry. results_cache s j = Some entry \<and> Q entry"
  shows "processing_queue (processing_worker envs s) = [] \<and>
         is_running (processing_worker envs s) \<and>
         (\<forall>j \<in> D \<union> fst ` set tasks. \<exists>entry.
            results_cache (processing_worker envs s) j = Some entry \<and> Q entry)"
  using assms
proof (induction tasks arbitrary: s envs D)
  case Nil
  then show ?case by (simp add: worker_idle)
next
  case (Cons t tasks)
  obtain j b where t: "t = (j, b)" by (cases t)
  from Cons.prems(3) obtain env envs' where envs: "envs = env # envs'" by (cases envs) auto
  let ?s1 = "process_image env j b (s\<lparr>processing_queue := map Some tasks\<rparr>)"
  have q: "processing_queue s = Some (j, b) # map Some tasks"
    using Cons.prems(2) by (simp add: t)
  have step: "processing_worker envs s = processing_worker envs' ?s1"
    unfolding envs by (rule worker_task[OF Cons.prems(1) q])
  have w: "\<exists>entry. results_cache ?s1 j = Some entry \<and> Q entry"
    using Cons.prems(4) by (simp add: t)
  have pre: "\<forall>k \<in> insert j D. \<exists>entry. results_cache ?s1 k = Some entry \<and> Q entry"
  proof
    fix k assume k: "k \<in> insert j D"
    show "\<exists>entry. results_cache ?s1 k = Some entry \<and> Q entry"
    proof (cases "k = j")
      case True
      then show ?thesis using w by simp
    next
      case False
      then have "results_cache ?s1 k = results_cache s k" by (simp add: process_image_frame)
      then show ?thesis using Cons.prems(5) k False by simp
    qed
  qed
  have "processing_queue (processing_worker envs' ?s1) = [] \<and>
        is_running (processing_worker envs' ?s1) \<and>
        (\<forall>k \<in> insert j D \<union> fst ` set tasks. \<exists>entry.
            results_cache (processing_worker envs' ?s1) k = Some entry \<and> Q entry)"
  proof (rule Cons.IH)
    show "is_running ?s1" using Cons.prems(1) by (simp add: process_image_frame)
    show "processing_queue ?s1 = map Some tasks" by (simp add: process_image_frame)
    show "length tasks \<le> length envs'" using Cons.prems(3) envs by simp
    show "\<forall>(j, b) \<in> set tasks. \<forall>env s. \<exists>entry.
           results_cache (process_image env j b s) j = Some entry \<and> Q entry"
      using Cons.prems(4) by simp
    show "\<forall>k \<in> insert j D. \<exists>entry. results_cache ?s1 k = Some entry \<and> Q entry" by (rule pre)
  qed
  then show ?case unfolding step by (simp add: t)
qed

lemma worker_processes_all:
  assumes "is_running s" and "processing_queue s = map Some tasks"
    and "length tasks \<le> length envs"
  shows "processing_queue (processing_worker envs s) = [] \<and>
         (\<forall>(j, b) \<in> set tasks. results_cache (processing_worker envs s) j \<noteq> None)"
proof -
  have "\<forall>(j, b) \<in> set tasks. \<forall>env s. \<exists>entry.
           results_cache (process_image env j b s) j = Some entry \<and> True"
    using process_image_frame(5) by fastforce
  from worker_drains[OF assms this, of "{}"] show ?thesis by fastforce
qed

text \<open>
  Claim C1. When the algorithms raise for a task, the worker stores for the task's
  identifier an entry with status \<^verbatim>\<open>'error'\<close> and the non-empty message of the exception,
  adds one to the error counter and leaves the count and the total time of the successes
  alone; no other entry changes, the worker goes on, and with enough loop iterations
  every task queued behind the failing one gets its result.
\<close>

theorem transform_failure_recorded:
  assumes "process_image_try env image_id image_data = Inl e"
  shows "(let s' = process_image env image_id image_data s;
              entry = error_entry image_id e
          in results_cache s' image_id = Some entry \<and>
             result_field entry ''image_id'' = Some (PyStr image_id) \<and>
             result_field entry ''status'' = Some (PyStr ''error'') \<and>
             result_field entry ''error'' = Some (PyStr (str_exn e)) \<and>
             str_exn e \<noteq> [] \<and>
             errors (stats s') = errors (stats s) + 1 \<and>
             processed_images (stats s') = processed_images (stats s) \<and>
             total_processing_time (stats s') = total_processing_time (stats s) \<and>
             is_running s' = is_running s \<and>
             processing_queue s' = processing_queue s \<and>
             (\<forall>j. j \<noteq> image_id \<longrightarrow> results_cache s' j = results_cache s j)) \<and>
         (is_running s \<and>
          processing_queue s = Some (image_id, image_data) # map Some tasks \<and>
          length tasks \<le> length envs \<longrightarrow>
            processing_worker_step env s =
              (True, process_image env image_id image_data (s\<lparr>processing_queue := map Some tasks\<rparr>)) \<and>
            processing_queue (processing_worker (env # envs) s) = [] \<and>
            (\<forall>(j, b) \<in> set tasks. results_cache (processing_worker (env # envs) s) j \<noteq> None))"
proof -
  from assms have e: "e = ValueError gradient_too_small" by (simp add: try_Inl)
  have 1: "str_exn e \<noteq> []" by (simp add: e gradient_too_small_nonempty)
  have 2: "is_running s \<and>
          processing_queue s = Some (image_id, image_data) # map Some tasks \<and>
          length tasks \<le> length envs \<longrightarrow>
            processing_worker_step env s =
              (True, process_image env image_id image_data (s\<lparr>processing_queue := map Some tasks\<rparr>)) \<and>
            processing_queue (processing_worker (env # envs) s) = [] \<and>
            (\<forall>(j, b) \<in> set tasks. results_cache (processing_worker (env # envs) s) j \<noteq> None)"
  proof (intro impI, elim conjE)
    assume r: "is_running s"
      and q: "processing_queue s = Some (image_id, image_data) # map Some tasks"
      and l: "length tasks \<le> length envs"
    let ?s1 = "process_image env image_id image_data (s\<lparr>processing_queue := map Some tasks\<rparr>)"
    have "is_running ?s1" "processing_queue ?s1 = map Some tasks"
      using r by (simp_all add: process_image_frame)
    from worker_processes_all[OF this l] worker_task[OF r q, of env envs] worker_step_task[OF r q, of env]
    show "processing_worker_step env s = (True, ?s1) \<and>
            processing_queue (processing_worker (env # envs) s) = [] \<and>
            (\<forall>(j, b) \<in> set tasks. results_cache (processing_worker (env # envs) s) j \<noteq> None)"
      by simp
  qed
  have 3: "(let s' = process_image env image_id image_data s;
              entry = error_entry image_id e
          in results_cache s' image_id = Some entry \<and>
             result_field entry ''image_id'' = Some (PyStr image_id) \<and>
             result_field entry ''status'' = Some (PyStr ''error'') \<and>
             result_field entry ''error'' = Some (PyStr (str_exn e)) \<and>
             str_exn e \<noteq> [] \<and>
             errors (stats s') = errors (stats s) + 1 \<and>
             processed_images (stats s') = processed_images (stats s) \<and>
             total_processing_time (stats s') = total_processing_time (stats s) \<and>
             is_running s' = is_running s \<and>
             processing_queue s' = processing_queue s \<and>
             (\<forall>j. j \<noteq> image_id \<longrightarrow> results_cache s' j = results_cache s j))"
    using 1 by (simp add: Let_def process_image_error[OF assms] error_entry_fields)
  show ?thesis by (rule conjI[OF 3 2])
qed

lemma two_tasks_state:
  "is_running two_tasks"
  "processing_queue two_tasks = Some (''bad'', zeros 1 1) # map Some [(''good'', zeros 4 4)]"
  "errors (stats two_tasks) = 0"
  "processed_images (stats two_tasks) = 0"
  by (simp_all add: two_tasks_def run_def submit_image_frame)
     (simp_all add: init_def start_processing_def)

theorem transform_failure_recorded_witness:
  "process_image_try env0 ''bad'' (zeros 1 1) = Inl (ValueError gradient_too_small) \<and>
   is_running two_tasks \<and>
   processing_queue two_tasks = [Some (''bad'', zeros 1 1), Some (''good'', zeros 4 4)] \<and>
   results_cache (process_image env0 ''bad'' (zeros 1 1) two_tasks) ''bad'' =
     Some (PyDict [(''result'', PyDict [(''image_id'', PyStr ''bad''),
                                        (''status'', PyStr ''error''),
                                        (''error'', PyStr gradient_too_small)])]) \<and>
   errors (stats (process_image env0 ''bad'' (zeros 1 1) two_tasks)) = 1 \<and>
   processed_images (stats (process_image env0 ''bad'' (zeros 1 1) two_tasks)) = 0 \<and>
   processing_queue (processing_worker [env0, env0] two_tasks) = [] \<and>
   results_cache (processing_worker [env0, env0] two_tasks) ''good'' \<noteq> None"
proof -
  have e: "process_image_try env0 ''bad'' (zeros 1 1) = Inl (ValueError gradient_too_small)"
    by (simp add: try_Inl zeros_def)
  from transform_failure_recorded[OF e, of two_tasks "[(''good'', zeros 4 4)]" "[env0]"]
  show ?thesis using e two_tasks_state
    by (simp add: Let_def error_entry_def del: processing_worker.simps)
qed

lemma try_Inr_keys:
  assumes "process_image_try env i a = Inr (entry, t)"
  shows "result_keys entry =
           [''image_id'', ''timestamp'', ''processing_time'', ''image_shape'',
            ''edge_detection_quality'', ''compression_ratio'', ''qubits_used'',
            ''feature_count'', ''status'']"
    and "dict_keys entry = [''result'', ''edge_map'', ''features'']"
    and "result_field entry ''image_id'' = Some (PyStr i)"
    and "result_field entry ''error'' = None"
  using assms
  by (auto simp: process_image_try_def Let_def result_keys_def result_field_def
      split: sum.splits prod.splits if_splits)

text \<open>
  Claim C2, as the code has it. Processing a task always stores an entry with the
  task's identifier. For an image with at least two rows and two columns it is a success
  entry: the result holds \<^verbatim>\<open>image_id\<close>, \<^verbatim>\<open>timestamp\<close>, \<^verbatim>\<open>processing_time\<close>, \<^verbatim>\<open>image_shape\<close>,
  \<^verbatim>\<open>edge_detection_quality\<close>, \<^verbatim>\<open>compression_ratio\<close>, \<^verbatim>\<open>qubits_used\<close>, \<^verbatim>\<open>feature_count\<close> and
  \<^verbatim>\<open>status\<close>, and the entry holds \<^verbatim>\<open>edge_map\<close> and \<^verbatim>\<open>features\<close> beside it. Otherwise it
  is an error entry, whose result holds \<^verbatim>\<open>image_id\<close>, \<^verbatim>\<open>status\<close> and \<^verbatim>\<open>error\<close> and nothing
  else.
\<close>

theorem result_keys_by_status:
  "\<exists>entry. results_cache (process_image env image_id image_data s) image_id = Some entry \<and>
     result_field entry ''image_id'' = Some (PyStr image_id) \<and>
     ((2 \<le> shape0 image_data \<and> 2 \<le> shape1 image_data \<and>
       result_field entry ''status'' = Some (PyStr ''success'') \<and>
       result_keys entry =
         [''image_id'', ''timestamp'', ''processing_time'', ''image_shape'',
          ''edge_detection_quality'', ''compression_ratio'', ''qubits_used'',
          ''feature_count'', ''status''] \<and>
       dict_keys entry = [''result'', ''edge_map'', ''features'']) \<or>
      ((shape0 image_data < 2 \<or> shape1 image_data < 2) \<and>
       result_field entry ''status'' = Some (PyStr ''error'') \<and>
       result_keys entry = [''image_id'', ''status'', ''error''] \<and>
       dict_keys entry = [''result'']))"
proof (cases "2 \<le> shape0 image_data \<and> 2 \<le> shape1 image_data")
  case True
  then obtain entry where e: "process_image_try env image_id image_data =
      Inr (entry, end_time env - start_time env)"
    using try_total[of image_data env image_id] by auto
  have "results_cache (process_image env image_id image_data s) image_id = Some entry"
    by (simp add: process_image_success[OF e])
  then show ?thesis using True try_Inr_keys[OF e] try_Inr_fields(1)[OF e] by auto
next
  case False
  then have f: "shape0 image_data < 2 \<or> shape1 image_data < 2" by auto
  show ?thesis
    using f process_image_stats_failure(6)[OF f, of env image_id s]
    by (auto simp: error_entry_fields)
qed

text \<open>
  Claim C2 as stated fails: the error entry of a 1 by 1 image has no timestamp, no
  processing time, no shape, no edge map and no features.
\<close>

theorem error_result_lacks_fields:
  "results_cache (process_image env0 ''img_1'' (zeros 1 1) (init 4)) ''img_1'' =
     Some (PyDict [(''result'', PyDict [(''image_id'', PyStr ''img_1''),
                                        (''status'', PyStr ''error''),
                                        (''error'', PyStr gradient_too_small)])]) \<and>
   result_field (PyDict [(''result'', PyDict [(''image_id'', PyStr ''img_1''),
                                        (''status'', PyStr ''error''),
                                        (''error'', PyStr gradient_too_small)])]) ''timestamp'' = None \<and>
   result_field (PyDict [(''result'', PyDict [(''image_id'', PyStr ''img_1''),
                                        (''status'', PyStr ''error''),
                                        (''error'', PyStr gradient_too_small)])]) ''processing_time'' = None \<and>
   result_field (PyDict [(''result'', PyDict [(''image_id'', PyStr ''img_1''),
                                        (''status'', PyStr ''error''),
                                        (''error'', PyStr gradient_too_small)])]) ''image_shape'' = None \<and>
   dict_get (PyDict [(''result'', PyDict [(''image_id'', PyStr ''img_1''),
                                        (''status'', PyStr ''error''),
                                        (''error'', PyStr gradient_too_small)])]) ''edge_map'' = None \<and>
   dict_get (PyDict [(''result'', PyDict [(''image_id'', PyStr ''img_1''),
                                        (''status'', PyStr ''error''),
                                        (''error'', PyStr gradient_too_small)])]) ''features'' = None"
proof -
  have z: "shape0 (zeros 1 1) < 2 \<or> shape1 (zeros 1 1) < 2" by (simp add: zeros_def)
  show ?thesis
    using process_image_stats_failure(6)[OF z, of env0 "''img_1''" "init 4"]
    by (simp add: error_entry_def result_field_def)
qed

lemma worker_step_frame:
  "is_running (snd (processing_worker_step env s)) = is_running s"
  "None \<notin> set (processing_queue s) \<Longrightarrow> None \<notin> set (processing_queue (snd (processing_worker_step env s)))"
  "results_cache s i \<noteq> None \<Longrightarrow> results_cache (snd (processing_worker_step env s)) i \<noteq> None"
  by (auto simp: processing_worker_step_def process_image_frame process_image_def Let_def
      split: list.splits option.splits prod.splits sum.splits)

lemma call_step_running: "is_running (call_step c s) = is_running s"
  by (cases c) (simp_all add: submit_image_frame get_stats_frame worker_step_frame)

lemma call_step_no_sentinel:
  "None \<notin> set (processing_queue s) \<Longrightarrow> None \<notin> set (processing_queue (call_step c s))"
  by (cases c) (simp_all add: submit_image_frame get_stats_frame worker_step_frame)

lemma run_running: "is_running (run calls s) = is_running s"
  unfolding run_def by (induction calls arbitrary: s) (simp_all add: call_step_running)

lemma run_no_sentinel:
  "None \<notin> set (processing_queue s) \<Longrightarrow> None \<notin> set (processing_queue (run calls s))"
  unfolding run_def by (induction calls arbitrary: s) (simp_all add: call_step_no_sentinel)

text \<open>
  Claim C5, as the code has it. The class has no operation that stops it: after every
  run of calls from its creation the processor is running and no stop request
  (\<^verbatim>\<open>None\<close>) is in the queue, no call changes \<^verbatim>\<open>is_running\<close>, and \<^verbatim>\<open>submit_image\<close> has no
  rejecting branch: in every state it returns the identifier and appends the task.
\<close>

theorem no_shutdown:
  "is_running (run calls (init workers)) \<and>
   None \<notin> set (processing_queue (run calls (init workers))) \<and>
   is_running (call_step c s) = is_running s \<and>
   (let (image_id', s') = submit_image now s image_data image_id
    in image_id' = (case image_id of None \<Rightarrow> fresh_image_id now | Some i \<Rightarrow> i) \<and>
       processing_queue s' = processing_queue s @ [Some (image_id', image_data)])"
proof -
  have "is_running (init workers)" "None \<notin> set (processing_queue (init workers))"
    by (simp_all add: init_def start_processing_def)
  then show ?thesis
    using submit_image_frame(8,9)[of now s image_data image_id]
    by (simp add: run_running run_no_sentinel call_step_running split_beta)
qed

text \<open>
  Claim C5 as stated fails: with \<^verbatim>\<open>is_running\<close> cleared, the only stop flag the workers
  read, a submission is still accepted and queued.
\<close>

theorem submit_after_stop_accepted:
  "\<not> is_running stopped \<and>
   fst (submit_image 100 stopped (zeros 4 4) (Some ''img_1'')) = ''img_1'' \<and>
   processing_queue stopped = [] \<and>
   processing_queue (snd (submit_image 100 stopped (zeros 4 4) (Some ''img_1''))) =
     [Some (''img_1'', zeros 4 4)]"
  by (simp add: submit_image_frame) (simp add: stopped_def init_def start_processing_def)

lemma pending_ids_append:
  "pending_ids (q @ [Some (j, a)]) = pending_ids q @ [j]"
  by (induction q rule: pending_ids.induct) simp_all

lemma call_step_keeps:
  "results_cache s i \<noteq> None \<Longrightarrow> results_cache (call_step c s) i \<noteq> None"
  by (cases c) (simp_all add: submit_image_frame get_stats_frame worker_step_frame)

lemma worker_step_stable:
  assumes "i \<notin> set (pending_ids (processing_queue s))"
  shows "results_cache (snd (processing_worker_step env s)) i = results_cache s i \<and>
         i \<notin> set (pending_ids (processing_queue (snd (processing_worker_step env s))))"
proof (cases "processing_queue s")
  case Nil
  then show ?thesis using assms by (simp add: processing_worker_step_def)
next
  case (Cons x q)
  show ?thesis
  proof (cases x)
    case None
    then show ?thesis using assms Cons by (simp add: processing_worker_step_def)
  next
    case (Some t)
    obtain j a where t: "t = (j, a)" by (cases t)
    have "j \<noteq> i" "i \<notin> set (pending_ids q)" using assms Cons Some t by auto
    then show ?thesis using assms Cons Some t
      by (simp add: processing_worker_step_def process_image_frame)
  qed
qed

lemma call_step_stable:
  assumes "i \<notin> set (pending_ids (processing_queue s))" and "submitted_id c \<noteq> Some i"
  shows "results_cache (call_step c s) i = results_cache s i \<and>
         i \<notin> set (pending_ids (processing_queue (call_step c s)))"
proof (cases c)
  case (Submit now a j)
  then show ?thesis using assms
    by (simp add: submit_image_frame pending_ids_append)
next
  case (Work env)
  then show ?thesis using worker_step_stable[OF assms(1)] by simp
next
  case (GetResult j)
  then show ?thesis using assms by simp
next
  case GetStats
  then show ?thesis using assms by (simp add: get_stats_frame)
qed

lemma run_keeps:
  "results_cache s i \<noteq> None \<Longrightarrow> results_cache (run calls s) i \<noteq> None"
  unfolding run_def
proof (induction calls arbitrary: s)
  case Nil
  then show ?case by simp
next
  case (Cons c calls)
  from call_step_keeps[OF Cons.prems]
  have "results_cache (call_step c s) i \<noteq> None" .
  from Cons.IH[OF this] show ?case by simp
qed

lemma run_stable:
  "i \<notin> set (pending_ids (processing_queue s)) \<Longrightarrow>
   \<forall>c \<in> set calls. submitted_id c \<noteq> Some i \<Longrightarrow>
   results_cache (run calls s) i = results_cache s i"
  unfolding run_def
proof (induction calls arbitrary: s)
  case Nil
  then show ?case by simp
next
  case (Cons c calls)
  from Cons.prems have st: "results_cache (call_step c s) i = results_cache s i"
    "i \<notin> set (pending_ids (processing_queue (call_step c s)))"
    using call_step_stable[of i s c] by simp_all
  from Cons.IH[OF st(2)] Cons.prems(2) st(1) show ?case by simp
qed

text \<open>
  Claim C3, as the code has it. An entry of the results cache is never deleted by a later
  call, and it stays as it is through every run of calls in which no task with its
  identifier is waiting in the queue or submitted; \<^verbatim>\<open>submit_image\<close> does not check that an
  identifier is new, and processing a later task with the same identifier stores a new
  entry over the old one.
\<close>

theorem stored_result_kept:
  assumes "results_cache s image_id = Some r"
  shows "results_cache (run calls s) image_id \<noteq> None \<and>
         (image_id \<notin> set (pending_ids (processing_queue s)) \<and>
          (\<forall>c \<in> set calls. submitted_id c \<noteq> Some image_id) \<longrightarrow>
            results_cache (run calls s) image_id = Some r)"
  using assms run_keeps[of s image_id calls] run_stable[of image_id s calls] by simp


lemma run_submit_work_idle:
  assumes "is_running s" and "processing_queue s = []"
  shows "run [Submit now a (Some i), Work env] s =
     process_image env i a ((snd (submit_image now s a (Some i)))\<lparr>processing_queue := []\<rparr>)"
proof -
  let ?s = "snd (submit_image now s a (Some i))"
  have q: "processing_queue ?s = Some (i, a) # []" using assms by (simp add: submit_image_frame)
  have r: "is_running ?s" using assms by (simp add: submit_image_frame)
  show ?thesis by (simp add: run_def worker_step_task[OF r q])
qed

lemma one_task_state:
  "is_running (run one_task (init 4))"
  "processing_queue (run one_task (init 4)) = []"
  "\<exists>r. results_cache (run one_task (init 4)) ''img_1'' = Some r \<and>
       result_field r ''status'' = Some (PyStr ''success'')"
proof -
  have z: "2 \<le> shape0 (zeros 4 4)" "2 \<le> shape1 (zeros 4 4)" by (simp_all add: zeros_def)
  obtain entry where e: "process_image_try env0 ''img_1'' (zeros 4 4) =
      Inr (entry, end_time env0 - start_time env0)"
    using try_total[OF z, of env0 "''img_1''"] by auto
  show "is_running (run one_task (init 4))"
    by (simp add: run_running) (simp add: init_def start_processing_def)
  show "processing_queue (run one_task (init 4)) = []"
    unfolding one_task_def run_submit_work by (simp add: process_image_frame)
  show "\<exists>r. results_cache (run one_task (init 4)) ''img_1'' = Some r \<and>
       result_field r ''status'' = Some (PyStr ''success'')"
    unfolding one_task_def run_submit_work
    using try_Inr_fields(1)[OF e] by (simp add: process_image_success[OF e])
qed

theorem stored_result_kept_witness:
  "\<exists>r. results_cache (run one_task (init 4)) ''img_1'' = Some r \<and>
     ''img_1'' \<notin> set (pending_ids (processing_queue (run one_task (init 4)))) \<and>
     list_all (\<lambda>c. submitted_id c \<noteq> Some ''img_1'') other_calls \<and>
     results_cache (run other_calls (run one_task (init 4))) ''img_1'' = Some r"
proof -
  obtain r where r: "results_cache (run one_task (init 4)) ''img_1'' = Some r"
    using one_task_state(3) by blast
  have p: "''img_1'' \<notin> set (pending_ids (processing_queue (run one_task (init 4))))"
    by (simp add: one_task_state(2))
  have c: "list_all (\<lambda>c. submitted_id c \<noteq> Some ''img_1'') other_calls"
    by (simp add: other_calls_def)
  then have "\<forall>c \<in> set other_calls. submitted_id c \<noteq> Some ''img_1''"
    by (simp add: list_all_iff)
  with stored_result_kept[OF r, of other_calls] p
  have "results_cache (run other_calls (run one_task (init 4))) ''img_1'' = Some r" by blast
  with r p c show ?thesis by blast
qed

text \<open>
  Claim C3 as stated fails: a second task submitted under the identifier of a finished
  one replaces the stored success result by an error result.
\<close>

theorem stored_result_replaced:
  "\<exists>r. results_cache (run one_task (init 4)) ''img_1'' = Some r \<and>
     result_field r ''status'' = Some (PyStr ''success'') \<and>
     results_cache (run resubmit (run one_task (init 4))) ''img_1'' =
       Some (error_entry ''img_1'' (ValueError gradient_too_small)) \<and>
     result_field (error_entry ''img_1'' (ValueError gradient_too_small)) ''status'' =
       Some (PyStr ''error'') \<and>
     results_cache (run resubmit (run one_task (init 4))) ''img_1'' \<noteq>
       results_cache (run one_task (init 4)) ''img_1''"
proof -
  obtain r where r: "results_cache (run one_task (init 4)) ''img_1'' = Some r"
    "result_field r ''status'' = Some (PyStr ''success'')"
    using one_task_state(3) by blast
  have z: "shape0 (zeros 1 1) < 2 \<or> shape1 (zeros 1 1) < 2" by (simp add: zeros_def)
  have n: "results_cache (run resubmit (run one_task (init 4))) ''img_1'' =
       Some (error_entry ''img_1'' (ValueError gradient_too_small))"
    unfolding resubmit_def run_submit_work_idle[OF one_task_state(1,2)]
    by (rule process_image_stats_failure(6)[OF z])
  have s: "result_field (error_entry ''img_1'' (ValueError gradient_too_small)) ''status'' =
       Some (PyStr ''error'')" by (simp add: error_entry_fields)
  have "r \<noteq> error_entry ''img_1'' (ValueError gradient_too_small)"
    using r(2) s by auto
  with r n s show ?thesis by auto
qed









end
